theory Spec2Isabelle
  imports Complex_Main "HOL-Library.Word"
begin

section \<open>Common conventions\<close>

text \<open>
  The development embeds two parts of the simulator: the typed attribute store
  (\<^verbatim>\<open>esp/assets/Attributes.cpp\<close>) and the physics manager
  (\<^verbatim>\<open>PhysicsManager.cpp\<close> with the member declarations of \<^verbatim>\<open>PhysicsManager.h\<close>).

  \<^item> C++ member names end in an underscore (\<^verbatim>\<open>doubleMap_\<close>, \<^verbatim>\<open>nextObjectID_\<close>). Isabelle
    reserves such names, so every member keeps its name without the trailing underscore.
  \<^item> \<^verbatim>\<open>float\<close> and \<^verbatim>\<open>double\<close> quantities are represented by \<^typ>\<open>real\<close>; rounding is not
    modelled. The store and the manager only copy, add or forward these values.
  \<^item> A \<^verbatim>\<open>std::map\<close> is a partial function; \<^verbatim>\<open>m.count(k)\<close> is 0 or 1.
  \<^item> The enumerator \<^verbatim>\<open>INT\<close> of \<^verbatim>\<open>DataType\<close> is written \<open>INT_t\<close>, since \<open>INT\<close> is a
    binder of the logic.
\<close>

type_synonym vec3 = "real \<times> real \<times> real"

definition map_count :: "('k \<rightharpoonup> 'v) \<Rightarrow> 'k \<Rightarrow> nat" where
  "map_count m k = (if m k = None then 0 else 1)"

section \<open>The attribute store\<close>

datatype DataType = DOUBLE | INT_t | STRING | MAGNUMVEC3 | VEC_STRINGS

record Attributes =
  doubleMap :: "string \<rightharpoonup> real"
  intMap :: "string \<rightharpoonup> int"
  stringMap :: "string \<rightharpoonup> string"
  magnumVec3Map :: "string \<rightharpoonup> vec3"
  vecStringsMap :: "string \<rightharpoonup> string list"

text \<open>\<^verbatim>\<open>Attributes::Attributes()\<close>: five empty maps.\<close>

definition Attributes_new :: Attributes where
  "Attributes_new =
     \<lparr>doubleMap = Map.empty, intMap = Map.empty, stringMap = Map.empty,
      magnumVec3Map = Map.empty, vecStringsMap = Map.empty\<rparr>"

text \<open>\<^verbatim>\<open>Attributes::existsAs(DataType t, std::string key)\<close>: a chain of independent tests.\<close>

definition existsAs :: "DataType \<Rightarrow> string \<Rightarrow> Attributes \<Rightarrow> bool" where
  "existsAs t key a =
     (if t = DOUBLE \<and> map_count (doubleMap a) key > 0 then True
      else if t = INT_t \<and> map_count (intMap a) key > 0 then True
      else if t = STRING \<and> map_count (stringMap a) key > 0 then True
      else if t = MAGNUMVEC3 \<and> map_count (magnumVec3Map a) key > 0 then True
      else if t = VEC_STRINGS \<and> map_count (vecStringsMap a) key > 0 then True
      else False)"

text \<open>\<^verbatim>\<open>Attributes::count(std::string key)\<close>: the number of containers with the key.\<close>

definition count :: "string \<Rightarrow> Attributes \<Rightarrow> int" where
  "count key a =
     (let numAttributes = 0;
          numAttributes = (if map_count (doubleMap a) key > 0
                           then numAttributes + 1 else numAttributes);
          numAttributes = (if map_count (intMap a) key > 0
                           then numAttributes + 1 else numAttributes);
          numAttributes = (if map_count (stringMap a) key > 0
                           then numAttributes + 1 else numAttributes);
          numAttributes = (if map_count (magnumVec3Map a) key > 0
                           then numAttributes + 1 else numAttributes);
          numAttributes = (if map_count (vecStringsMap a) key > 0
                           then numAttributes + 1 else numAttributes)
      in numAttributes)"

text \<open>\<^verbatim>\<open>Attributes::eraseAs(DataType t, std::string key)\<close>: erase from one map.\<close>

definition eraseAs :: "DataType \<Rightarrow> string \<Rightarrow> Attributes \<Rightarrow> Attributes" where
  "eraseAs t key a =
     (if t = DOUBLE then
        (if map_count (doubleMap a) key > 0
         then a\<lparr>doubleMap := (doubleMap a)(key := None)\<rparr> else a)
      else if t = INT_t then
        (if map_count (intMap a) key > 0
         then a\<lparr>intMap := (intMap a)(key := None)\<rparr> else a)
      else if t = STRING then
        (if map_count (stringMap a) key > 0
         then a\<lparr>stringMap := (stringMap a)(key := None)\<rparr> else a)
      else if t = MAGNUMVEC3 then
        (if map_count (magnumVec3Map a) key > 0
         then a\<lparr>magnumVec3Map := (magnumVec3Map a)(key := None)\<rparr> else a)
      else if t = VEC_STRINGS then
        (if map_count (vecStringsMap a) key > 0
         then a\<lparr>vecStringsMap := (vecStringsMap a)(key := None)\<rparr> else a)
      else a)"

text \<open>The setters store with \<^verbatim>\<open>operator[]\<close>: insert or overwrite.\<close>

definition setDouble :: "string \<Rightarrow> real \<Rightarrow> Attributes \<Rightarrow> Attributes" where
  "setDouble key val a = a\<lparr>doubleMap := (doubleMap a)(key \<mapsto> val)\<rparr>"

definition setInt :: "string \<Rightarrow> int \<Rightarrow> Attributes \<Rightarrow> Attributes" where
  "setInt key val a = a\<lparr>intMap := (intMap a)(key \<mapsto> val)\<rparr>"

definition setString :: "string \<Rightarrow> string \<Rightarrow> Attributes \<Rightarrow> Attributes" where
  "setString key val a = a\<lparr>stringMap := (stringMap a)(key \<mapsto> val)\<rparr>"

text \<open>
  \<^verbatim>\<open>PhysicsManagerAttributes::PhysicsManagerAttributes()\<close>: the store pre-populated with
  the manager's defaults.
\<close>

definition PhysicsManagerAttributes_new :: Attributes where
  "PhysicsManagerAttributes_new =
     setInt ''maxSubsteps'' 10
       (setDouble ''timestep'' 0.01
         (setString ''simulator'' ''none'' Attributes_new))"

section \<open>Geometry validation\<close>

text \<open>
  \<^verbatim>\<open>Magnum::MeshPrimitive\<close> is an enumeration of the rendering library. The seven named
  values are the ones the validator distinguishes; \<open>OtherPrimitive n\<close> stands for any
  other value \<open>n\<close> of the underlying integer type, which the validator's \<^verbatim>\<open>default\<close>
  branch handles.
\<close>

datatype MeshPrimitive =
  Points | Lines | LineLoop | LineStrip | Triangles | TriangleStrip | TriangleFan
  | OtherPrimitive nat

text \<open>
  Modelled from the spec: \<^verbatim>\<open>assets::CollisionMeshData\<close>, whose declaration is missing
  from the sources. The spec: a collision-mesh primitive is a "topology tag +
  vertex/index buffers". The manager reads the members \<^verbatim>\<open>primitive\<close> and \<^verbatim>\<open>indices\<close>.
\<close>

record CollisionMeshData =
  primitive :: MeshPrimitive
  positions :: "vec3 list"
  indices :: "nat list"

text \<open>Decimal rendering of an integer streamed into the log.\<close>

fun decimal :: "nat \<Rightarrow> string" where
  "decimal n =
     (if n < 10 then [char_of (48 + n)]
      else decimal (n div 10) @ [char_of (48 + n mod 10)])"

declare decimal.simps [simp del]

text \<open>
  \<^verbatim>\<open>PhysicsManager::isMeshPrimitiveValid\<close>: the verdict, together with the lines the call
  writes to the error log. The first equation is the \<^verbatim>\<open>if\<close> that accepts a triangle list,
  the others are the \<^verbatim>\<open>case\<close>s of the \<^verbatim>\<open>switch\<close> in its \<^verbatim>\<open>else\<close> branch, in their order,
  each followed by the line that ends the branch; the last one is the \<^verbatim>\<open>default\<close>.
\<close>

fun checkPrimitive :: "MeshPrimitive \<Rightarrow> bool \<times> string list" where
  "checkPrimitive Triangles = (True, [])"
| "checkPrimitive Lines =
     (False, [''Invalid primitive: Lines'', ''Cannot load collision mesh, skipping''])"
| "checkPrimitive Points =
     (False, [''Invalid primitive: Points'', ''Cannot load collision mesh, skipping''])"
| "checkPrimitive LineLoop =
     (False, [''Invalid primitive Line loop'', ''Cannot load collision mesh, skipping''])"
| "checkPrimitive LineStrip =
     (False, [''Invalid primitive Line Strip'', ''Cannot load collision mesh, skipping''])"
| "checkPrimitive TriangleStrip =
     (False, [''Invalid primitive Triangle Strip'',
              ''Cannot load collision mesh, skipping''])"
| "checkPrimitive TriangleFan =
     (False, [''Invalid primitive Triangle Fan'', ''Cannot load collision mesh, skipping''])"
| "checkPrimitive (OtherPrimitive n) =
     (False, [''Invalid primitive '' @ decimal n, ''Cannot load collision mesh, skipping''])"

definition isMeshPrimitiveValid :: "CollisionMeshData \<Rightarrow> bool \<times> string list" where
  "isMeshPrimitiveValid meshData = checkPrimitive (primitive meshData)"

section \<open>The physics manager\<close>

subsection \<open>Undefined behaviour, pointers and the backend\<close>

text \<open>
  The manager reports no errors of its own. What the model makes explicit are the places
  where the C++ has undefined behaviour: calling through a null or dangling
  \<^verbatim>\<open>RigidObject*\<close>, dereferencing the null \<^verbatim>\<open>bWorld_\<close>, reading \<^verbatim>\<open>meshGroup[0]\<close> of an
  empty vector, and overflowing the signed identity counter. A run that reaches one of
  them yields a \<open>fault\<close> and no state.
\<close>

datatype fault = NullPointer | DanglingPointer | IndexOutOfRange | SignedOverflow

text \<open>A \<^verbatim>\<open>RigidObject*\<close>: \<open>None\<close> is \<^verbatim>\<open>nullptr\<close>, \<open>Some a\<close> the address \<open>a\<close>.\<close>

type_synonym ptr = "nat option"

text \<open>
  Modelled from the spec: \<^verbatim>\<open>assets::AssetInfo\<close>, whose declaration is missing from the
  sources: the \<open>info\<close> that describes the asset of a scene or an object. The manager
  reads its \<^verbatim>\<open>type\<close> member, to choose between the log lines for
  \<^verbatim>\<open>AssetType::INSTANCE_MESH\<close>, \<^verbatim>\<open>AssetType::FRL_INSTANCE_MESH\<close> and any other type, and
  forwards the whole value to the rigid object.
\<close>

datatype AssetType = INSTANCE_MESH | FRL_INSTANCE_MESH | OTHER_ASSET_TYPE

record AssetInfo =
  asset_type :: AssetType
  filepath :: string

text \<open>
  \<^verbatim>\<open>Magnum::Timeline\<close>, as far as the manager uses it: \<^verbatim>\<open>start()\<close> sets the previous frame
  duration to zero, \<^verbatim>\<open>nextFrame()\<close> stores the measured duration of the frame that ended
  (when the timeline runs), \<^verbatim>\<open>previousFrameDuration()\<close> reads it. The measured duration
  is an input of the model.
\<close>

record Timeline =
  running :: bool
  previousFrameDuration :: real

definition Timeline_new :: Timeline where
  "Timeline_new = \<lparr>running = False, previousFrameDuration = 0\<rparr>"

definition Timeline_start :: "Timeline \<Rightarrow> Timeline" where
  "Timeline_start t = t\<lparr>running := True, previousFrameDuration := 0\<rparr>"

definition Timeline_nextFrame :: "real \<Rightarrow> Timeline \<Rightarrow> Timeline" where
  "Timeline_nextFrame measured t =
     (if running t then t\<lparr>previousFrameDuration := measured\<rparr> else t)"

text \<open>
  The physics engine and the rigid objects are not part of the sources. The
  manager's functions take them as a parameter: a record of the operations the manager
  calls, over a type \<open>'w\<close> of dynamics worlds and a type \<open>'b\<close> of rigid objects.
  \<^item> \<open>newWorld\<close>: \<^verbatim>\<open>std::make_shared<btDiscreteDynamicsWorld>(...)\<close>;
  \<^item> \<open>setGravity\<close>, \<open>stepSimulation\<close>: the world's member functions of these names;
  \<^item> \<open>initializeScene\<close>, \<open>initializeObject\<close>: \<^verbatim>\<open>RigidObject::initializeScene\<close> and
    \<^verbatim>\<open>RigidObject::initializeObject\<close>, which get the world by reference and return
    whether the body was built;
  \<^item> \<open>bodyApplyForce\<close>, \<open>bodyApplyImpulse\<close>: \<^verbatim>\<open>RigidObject::applyForce\<close> and
    \<^verbatim>\<open>RigidObject::applyImpulse\<close>.
\<close>

record ('w, 'b) backend =
  newWorld :: "'w"
  setGravity :: "vec3 \<Rightarrow> 'w \<Rightarrow> 'w"
  stepSimulation :: "real \<Rightarrow> int \<Rightarrow> real \<Rightarrow> 'w \<Rightarrow> 'w"
  initializeScene ::
    "AssetInfo \<Rightarrow> real \<Rightarrow> CollisionMeshData list \<Rightarrow> 'w \<Rightarrow> 'b \<Rightarrow> bool \<times> 'w \<times> 'b"
  initializeObject ::
    "AssetInfo \<Rightarrow> real \<Rightarrow> CollisionMeshData list \<Rightarrow> 'w \<Rightarrow> 'b \<Rightarrow> bool \<times> 'w \<times> 'b"
  bodyApplyForce :: "vec3 \<Rightarrow> vec3 \<Rightarrow> 'b \<Rightarrow> 'b"
  bodyApplyImpulse :: "vec3 \<Rightarrow> vec3 \<Rightarrow> 'b \<Rightarrow> 'b"

subsection \<open>The manager's state\<close>

text \<open>
  The members of \<^verbatim>\<open>PhysicsManager\<close> that the functions below touch, and \<open>objects\<close>: the
  \<^verbatim>\<open>RigidObject\<close> instances in memory, by address (they belong to the scene graph, the
  manager holds pointers to them). \<^verbatim>\<open>total_frames_\<close> is a 32-bit counter that is only
  incremented and printed; \<^verbatim>\<open>nextObjectID_\<close> is an \<^typ>\<open>int\<close> whose overflow is a fault
  (see \<open>initObject\<close>).
\<close>

record ('w, 'b) PhysicsManager =
  bWorld :: "'w option"
  physicsNode :: "nat option"
  dynamicObjects :: "int \<rightharpoonup> ptr"
  nextObjectID :: int
  initialized :: bool
  do_profile :: bool
  total_time :: real
  total_frames :: "32 word"
  timeline :: Timeline
  maxSubSteps :: int
  fixedTimeStep :: real
  objects :: "nat \<rightharpoonup> 'b"

definition INT_MAX :: int where
  "INT_MAX = 2147483647"

text \<open>
  A manager as constructed: the default member initialisers of the class
  (\<^verbatim>\<open>nextObjectID_ = 0\<close>, \<^verbatim>\<open>initialized_ = false\<close>, \<^verbatim>\<open>do_profile_ = false\<close>,
  \<^verbatim>\<open>total_time_ = 0.0f\<close>, \<^verbatim>\<open>total_frames_ = 0\<close>, \<^verbatim>\<open>maxSubSteps_ = 10\<close>,
  \<^verbatim>\<open>fixedTimeStep_ = 1.0f / 240.0f\<close>), an empty registry, null pointers.
\<close>

definition PhysicsManager_new :: "(nat \<rightharpoonup> 'b) \<Rightarrow> ('w, 'b) PhysicsManager" where
  "PhysicsManager_new mem =
     \<lparr>bWorld = None, physicsNode = None, dynamicObjects = Map.empty, nextObjectID = 0,
      initialized = False, do_profile = False, total_time = 0, total_frames = 0,
      timeline = Timeline_new, maxSubSteps = 10, fixedTimeStep = 1 / 240,
      objects = mem\<rparr>"

subsection \<open>Initialisation\<close>

text \<open>
  \<^verbatim>\<open>PhysicsManager::initPhysics(node, gravity, simulator, do_profile)\<close>: builds a new
  world, sets its gravity, stores the node, starts the timeline, sets the two flags and
  returns \<^verbatim>\<open>true\<close>. There is no test of \<^verbatim>\<open>initialized_\<close>.
\<close>

definition initPhysics ::
  "('w, 'b) backend \<Rightarrow> nat option \<Rightarrow> vec3 \<Rightarrow> string \<Rightarrow> bool
    \<Rightarrow> ('w, 'b) PhysicsManager \<Rightarrow> bool \<times> ('w, 'b) PhysicsManager" where
  "initPhysics be node gravity simulator profile s =
     (True,
      s\<lparr>bWorld := Some (setGravity be gravity (newWorld be)),
        physicsNode := node,
        timeline := Timeline_start (timeline s),
        initialized := True,
        do_profile := profile\<rparr>)"

subsection \<open>Registering the scene and the objects\<close>

text \<open>The loop that tests every primitive of the mesh group.\<close>

definition allPrimitivesValid :: "CollisionMeshData list \<Rightarrow> bool" where
  "allPrimitivesValid meshGroup = list_all (\<lambda>meshData. fst (isMeshPrimitiveValid meshData)) meshGroup"

text \<open>
  \<^verbatim>\<open>physObject->f(info, mass, meshGroup, *bWorld_.get())\<close> for \<open>f\<close> one of the two
  initialisers: both the pointer and the world must be there; the call updates the
  world and the rigid object.
\<close>

definition callInitializer ::
  "(AssetInfo \<Rightarrow> real \<Rightarrow> CollisionMeshData list \<Rightarrow> 'w \<Rightarrow> 'b \<Rightarrow> bool \<times> 'w \<times> 'b)
    \<Rightarrow> AssetInfo \<Rightarrow> real \<Rightarrow> CollisionMeshData list \<Rightarrow> ptr
    \<Rightarrow> ('w, 'b) PhysicsManager \<Rightarrow> fault + (bool \<times> ('w, 'b) PhysicsManager)" where
  "callInitializer f info mass meshGroup physObject s =
     (case physObject of
        None \<Rightarrow> Inl NullPointer
      | Some a \<Rightarrow>
          (case objects s a of
             None \<Rightarrow> Inl DanglingPointer
           | Some b \<Rightarrow>
               (case bWorld s of
                  None \<Rightarrow> Inl NullPointer
                | Some w \<Rightarrow>
                    (case f info mass meshGroup w b of
                       (success, w', b') \<Rightarrow>
                         Inr (success,
                              s\<lparr>bWorld := Some w', objects := (objects s)(a \<mapsto> b')\<rparr>)))))"

text \<open>
  \<^verbatim>\<open>PhysicsManager::initScene(info, metaData, meshGroup, physObject)\<close>; the parameter
  \<^verbatim>\<open>metaData\<close> is not used by the function and is left out.
\<close>

definition initScene ::
  "('w, 'b) backend \<Rightarrow> AssetInfo \<Rightarrow> CollisionMeshData list \<Rightarrow> ptr
    \<Rightarrow> ('w, 'b) PhysicsManager \<Rightarrow> fault + (bool \<times> ('w, 'b) PhysicsManager)" where
  "initScene be info meshGroup physObject s =
     (if \<not> allPrimitivesValid meshGroup then Inr (False, s)
      else
        (let mass = 0
         in callInitializer (initializeScene be) info mass meshGroup physObject s))"

text \<open>
  \<^verbatim>\<open>PhysicsManager::initObject(info, metaData, meshGroup, physObject)\<close>, which returns an
  \<^verbatim>\<open>int\<close>. Its first exit is \<^verbatim>\<open>return false\<close>, that is the integer 0; the exit after a
  failed body construction is \<^verbatim>\<open>return -1\<close>; the last one returns the identity that was
  stored. The mass is read from \<^verbatim>\<open>meshGroup[0]\<close>.
\<close>

definition initObject ::
  "('w, 'b) backend \<Rightarrow> AssetInfo \<Rightarrow> CollisionMeshData list \<Rightarrow> ptr
    \<Rightarrow> ('w, 'b) PhysicsManager \<Rightarrow> fault + (int \<times> ('w, 'b) PhysicsManager)" where
  "initObject be info meshGroup physObject s =
     (if \<not> allPrimitivesValid meshGroup then Inr (0, s)
      else
        (case meshGroup of
           [] \<Rightarrow> Inl IndexOutOfRange
         | meshData0 # _ \<Rightarrow>
             (let mass = real (length (indices meshData0)) * 0.001
              in case callInitializer (initializeObject be) info mass meshGroup physObject s of
                   Inl f \<Rightarrow> Inl f
                 | Inr (objectSuccess, s1) \<Rightarrow>
                     if \<not> objectSuccess then Inr (- 1, s1)
                     else if nextObjectID s1 = INT_MAX then Inl SignedOverflow
                     else
                       Inr (nextObjectID s1 + 1 - 1,
                            s1\<lparr>dynamicObjects :=
                                  (dynamicObjects s1)(nextObjectID s1 \<mapsto> physObject),
                                nextObjectID := nextObjectID s1 + 1\<rparr>))))"

subsection \<open>Stepping\<close>

text \<open>
  \<^verbatim>\<open>PhysicsManager::stepPhysics()\<close>. The two readings of the system clock around the
  world's step are inputs of the model. The number of collision objects that the
  function reads at its end is a local that it does not use.
\<close>

definition stepPhysics ::
  "('w, 'b) backend \<Rightarrow> real \<Rightarrow> real \<Rightarrow> ('w, 'b) PhysicsManager
    \<Rightarrow> fault + ('w, 'b) PhysicsManager" where
  "stepPhysics be start end s =
     (if \<not> initialized s then Inr s
      else
        (case bWorld s of
           None \<Rightarrow> Inl NullPointer
         | Some w \<Rightarrow>
             (let s1 = s\<lparr>bWorld :=
                          Some (stepSimulation be (previousFrameDuration (timeline s))
                                  (maxSubSteps s) (fixedTimeStep s) w)\<rparr>;
                  elapsed_seconds = end - start
              in if do_profile s1
                 then Inr (s1\<lparr>total_frames := total_frames s1 + 1,
                              total_time := total_time s1 + elapsed_seconds\<rparr>)
                 else Inr s1)))"

text \<open>
  \<^verbatim>\<open>PhysicsManager::nextFrame()\<close>: advances the timeline. The census of
  \<^verbatim>\<open>checkActiveObjects\<close> that follows only fills two local counters, which it discards.
\<close>

definition nextFrame :: "real \<Rightarrow> ('w, 'b) PhysicsManager \<Rightarrow> ('w, 'b) PhysicsManager" where
  "nextFrame measured s = s\<lparr>timeline := Timeline_nextFrame measured (timeline s)\<rparr>"

definition setTimestep :: "real \<Rightarrow> ('w, 'b) PhysicsManager \<Rightarrow> ('w, 'b) PhysicsManager" where
  "setTimestep dt s = s\<lparr>fixedTimeStep := dt\<rparr>"

subsection \<open>Interaction with objects\<close>

text \<open>
  \<^verbatim>\<open>dynamicObjects_[objectID]\<close>: \<^verbatim>\<open>operator[]\<close> of \<^verbatim>\<open>std::map\<close> returns the stored pointer,
  and for a key that is not in the map it first inserts the key with a null pointer.
\<close>

definition dynamicObjects_at ::
  "int \<Rightarrow> ('w, 'b) PhysicsManager \<Rightarrow> ptr \<times> ('w, 'b) PhysicsManager" where
  "dynamicObjects_at objectID s =
     (case dynamicObjects s objectID of
        Some physObject \<Rightarrow> (physObject, s)
      | None \<Rightarrow> (None, s\<lparr>dynamicObjects := (dynamicObjects s)(objectID \<mapsto> None)\<rparr>))"

text \<open>\<^verbatim>\<open>physObject->f(v, relPos)\<close> for a member function \<open>f\<close> of the rigid object.\<close>

definition callBody ::
  "('b \<Rightarrow> 'b) \<Rightarrow> ptr \<Rightarrow> ('w, 'b) PhysicsManager \<Rightarrow> fault + ('w, 'b) PhysicsManager" where
  "callBody f physObject s =
     (case physObject of
        None \<Rightarrow> Inl NullPointer
      | Some a \<Rightarrow>
          (case objects s a of
             None \<Rightarrow> Inl DanglingPointer
           | Some b \<Rightarrow> Inr (s\<lparr>objects := (objects s)(a \<mapsto> f b)\<rparr>)))"

text \<open>\<^verbatim>\<open>PhysicsManager::applyForce\<close> and \<^verbatim>\<open>PhysicsManager::applyImpulse\<close>.\<close>

definition applyForce ::
  "('w, 'b) backend \<Rightarrow> int \<Rightarrow> vec3 \<Rightarrow> vec3 \<Rightarrow> ('w, 'b) PhysicsManager
    \<Rightarrow> fault + ('w, 'b) PhysicsManager" where
  "applyForce be objectID force relPos s =
     (case dynamicObjects_at objectID s of
        (physObject, s1) \<Rightarrow> callBody (bodyApplyForce be force relPos) physObject s1)"

definition applyImpulse ::
  "('w, 'b) backend \<Rightarrow> int \<Rightarrow> vec3 \<Rightarrow> vec3 \<Rightarrow> ('w, 'b) PhysicsManager
    \<Rightarrow> fault + ('w, 'b) PhysicsManager" where
  "applyImpulse be objectID impulse relPos s =
     (case dynamicObjects_at objectID s of
        (physObject, s1) \<Rightarrow> callBody (bodyApplyImpulse be impulse relPos) physObject s1)"

subsection \<open>Removing an object\<close>

datatype api_error = UnknownObjectId

text \<open>
  Modelled from the spec: \<^verbatim>\<open>PhysicsManager::removeObject\<close>, which the viewer calls and
  whose body is missing from the sources. The spec: removal "detaches and destroys
  the body, invalidating the identity for future lookups (but the counter is NOT rolled
  back)", and it "fails with UnknownObjectId if not found".
\<close>

definition removeObject ::
  "int \<Rightarrow> ('w, 'b) PhysicsManager \<Rightarrow> api_error + ('w, 'b) PhysicsManager" where
  "removeObject objectID s =
     (case dynamicObjects s objectID of
        None \<Rightarrow> Inl UnknownObjectId
      | Some physObject \<Rightarrow>
          Inr (s\<lparr>dynamicObjects := (dynamicObjects s)(objectID := None),
                 objects := (case physObject of
                               None \<Rightarrow> objects s
                             | Some a \<Rightarrow> (objects s)(a := None))\<rparr>))"

subsection \<open>Sequences of calls\<close>

text \<open>
  A registration is successful when the call of \<open>initObject\<close> reaches its last exit, the
  one that stores the object and advances the counter.
\<close>

definition registered :: "('w, 'b) PhysicsManager \<Rightarrow> ('w, 'b) PhysicsManager \<Rightarrow> bool" where
  "registered s s' = (nextObjectID s' = nextObjectID s + 1)"

datatype registryCall =
  AddObject AssetInfo "CollisionMeshData list" ptr
  | RemoveObject int

text \<open>
  The identities returned by the successful registrations of a sequence of calls, in the
  order of the calls. A fault ends the run; a removal that fails changes nothing.
\<close>

fun issuedIds ::
  "('w, 'b) backend \<Rightarrow> registryCall list \<Rightarrow> ('w, 'b) PhysicsManager \<Rightarrow> int list" where
  "issuedIds be [] s = []"
| "issuedIds be (AddObject info meshGroup physObject # calls) s =
     (case initObject be info meshGroup physObject s of
        Inl f \<Rightarrow> []
      | Inr (objectID, s') \<Rightarrow>
          (if registered s s' then [objectID] else []) @ issuedIds be calls s')"
| "issuedIds be (RemoveObject objectID # calls) s =
     (case removeObject objectID s of
        Inl e \<Rightarrow> issuedIds be calls s
      | Inr s' \<Rightarrow> issuedIds be calls s')"

text \<open>The calls of the manager's interface, for runs that mix all of them.\<close>

datatype managerCall =
  InitPhysics "nat option" vec3 string bool
  | InitScene AssetInfo "CollisionMeshData list" ptr
  | InitObject AssetInfo "CollisionMeshData list" ptr
  | StepPhysics real real
  | NextFrame real
  | SetTimestep real
  | ApplyForce int vec3 vec3
  | ApplyImpulse int vec3 vec3
  | RemoveObjectCall int

fun exec ::
  "('w, 'b) backend \<Rightarrow> managerCall \<Rightarrow> ('w, 'b) PhysicsManager
    \<Rightarrow> fault + ('w, 'b) PhysicsManager" where
  "exec be (InitPhysics node gravity simulator profile) s =
     Inr (snd (initPhysics be node gravity simulator profile s))"
| "exec be (InitScene info meshGroup physObject) s =
     map_sum id snd (initScene be info meshGroup physObject s)"
| "exec be (InitObject info meshGroup physObject) s =
     map_sum id snd (initObject be info meshGroup physObject s)"
| "exec be (StepPhysics start end) s = stepPhysics be start end s"
| "exec be (NextFrame measured) s = Inr (nextFrame measured s)"
| "exec be (SetTimestep dt) s = Inr (setTimestep dt s)"
| "exec be (ApplyForce objectID force relPos) s = applyForce be objectID force relPos s"
| "exec be (ApplyImpulse objectID impulse relPos) s =
     applyImpulse be objectID impulse relPos s"
| "exec be (RemoveObjectCall objectID) s =
     (case removeObject objectID s of Inl e \<Rightarrow> Inr s | Inr s' \<Rightarrow> Inr s')"

fun execAll ::
  "('w, 'b) backend \<Rightarrow> managerCall list \<Rightarrow> ('w, 'b) PhysicsManager
    \<Rightarrow> fault + ('w, 'b) PhysicsManager" where
  "execAll be [] s = Inr s"
| "execAll be (c # cs) s =
     (case exec be c s of Inl f \<Rightarrow> Inl f | Inr s' \<Rightarrow> execAll be cs s')"

text \<open>
  What a run leaves of the simulation: the state without the profiling members
  \<^verbatim>\<open>do_profile_\<close>, \<^verbatim>\<open>total_time_\<close> and \<^verbatim>\<open>total_frames_\<close>.
\<close>

definition simulationView :: "('w, 'b) PhysicsManager \<Rightarrow> ('w, 'b) PhysicsManager" where
  "simulationView s = s\<lparr>do_profile := False, total_time := 0, total_frames := 0\<rparr>"

subsection \<open>A dynamics world with a sub-step cap\<close>

text \<open>
  Modelled from the spec: the backend physics world (the physics engine and the rigid
  objects are missing from the sources). The spec gives it the capabilities
  "construct a dynamics world with a gravity vector; add/remove rigid bodies; advance by
  dt with N max sub-steps", and says of the step: it "advances the backend world by dt
  using at most maxSubSteps internal sub-steps of size fixedTimeStep (classic
  fixed-step-with-substep-cap integration: if dt exceeds maxSubSteps * fixedTimeStep, the
  excess time is effectively dropped)". Forces and impulses "accumulate into the
  backend's force/impulse queue". Body construction can fail on a "degenerate mesh that
  passes topology validation but fails shape construction"; here a mesh is degenerate
  when a primitive has fewer than three indices.
\<close>

record world =
  worldGravity :: vec3
  simulatedTime :: real
  bodyCount :: nat

record body =
  inWorld :: bool
  bodyMass :: real
  queuedForces :: "(vec3 \<times> vec3) list"
  queuedImpulses :: "(vec3 \<times> vec3) list"

text \<open>
  Modelled from the spec: the sub-step loop. While sub-steps are left and a whole step
  of time remains, advance the simulated time by one fixed step.
\<close>

fun subSteps :: "nat \<Rightarrow> real \<Rightarrow> real \<Rightarrow> real \<Rightarrow> real" where
  "subSteps n remaining fixedStep t =
     (if n = 0 \<or> remaining < fixedStep then t
      else subSteps (n - 1) (remaining - fixedStep) fixedStep (t + fixedStep))"

declare subSteps.simps [simp del]

text \<open>
  Modelled from the spec: the step of the world, "advance by dt with N max sub-steps".
\<close>

definition world_stepSimulation :: "real \<Rightarrow> int \<Rightarrow> real \<Rightarrow> world \<Rightarrow> world" where
  "world_stepSimulation dt maxSub fixedStep w =
     w\<lparr>simulatedTime := subSteps (nat maxSub) dt fixedStep (simulatedTime w)\<rparr>"

text \<open>
  Modelled from the spec: the construction of a body, which fails on a degenerate mesh
  and then changes nothing.
\<close>

definition world_addBody ::
  "AssetInfo \<Rightarrow> real \<Rightarrow> CollisionMeshData list \<Rightarrow> world \<Rightarrow> body \<Rightarrow> bool \<times> world \<times> body" where
  "world_addBody info mass meshGroup w b =
     (if list_all (\<lambda>meshData. 3 \<le> length (indices meshData)) meshGroup
      then (True, w\<lparr>bodyCount := bodyCount w + 1\<rparr>, b\<lparr>inWorld := True, bodyMass := mass\<rparr>)
      else (False, w, b))"

text \<open>
  Modelled from the spec: the backend made of the operations above; forces and impulses
  are queued at the body.
\<close>

definition world_backend :: "(world, body) backend" where
  "world_backend =
     \<lparr>newWorld = \<lparr>worldGravity = (0, 0, 0), simulatedTime = 0, bodyCount = 0\<rparr>,
      setGravity = (\<lambda>g w. w\<lparr>worldGravity := g\<rparr>),
      stepSimulation = world_stepSimulation,
      initializeScene = world_addBody,
      initializeObject = world_addBody,
      bodyApplyForce = (\<lambda>force relPos b. b\<lparr>queuedForces := queuedForces b @ [(force, relPos)]\<rparr>),
      bodyApplyImpulse =
        (\<lambda>impulse relPos b. b\<lparr>queuedImpulses := queuedImpulses b @ [(impulse, relPos)]\<rparr>)\<rparr>"

text \<open>Sample data for the concrete runs below.\<close>

definition newBody :: body where
  "newBody = \<lparr>inWorld = False, bodyMass = 0, queuedForces = [], queuedImpulses = []\<rparr>"

definition sampleMemory :: "nat \<rightharpoonup> body" where
  "sampleMemory = [0 \<mapsto> newBody, 1 \<mapsto> newBody, 2 \<mapsto> newBody]"

definition sampleInfo :: AssetInfo where
  "sampleInfo = \<lparr>asset_type = OTHER_ASSET_TYPE, filepath = ''cube.glb''\<rparr>"

definition triangleMesh :: CollisionMeshData where
  "triangleMesh = \<lparr>primitive = Triangles, positions = [], indices = [0, 1, 2]\<rparr>"

definition lineMesh :: CollisionMeshData where
  "lineMesh = \<lparr>primitive = Lines, positions = [], indices = [0, 1]\<rparr>"

definition degenerateMesh :: CollisionMeshData where
  "degenerateMesh = \<lparr>primitive = Triangles, positions = [], indices = []\<rparr>"

text \<open>A manager on the sample memory after \<open>initPhysics\<close> with gravity (0, -9.8, 0).\<close>

definition readyManager :: "(world, body) PhysicsManager" where
  "readyManager =
     snd (initPhysics world_backend (Some 0) (0, - 9.8, 0) ''bullet'' False
            (PhysicsManager_new sampleMemory))"

definition sampleCalls :: "registryCall list" where
  "sampleCalls =
     [AddObject sampleInfo [triangleMesh] (Some 0),
      AddObject sampleInfo [lineMesh] (Some 1),
      AddObject sampleInfo [degenerateMesh] (Some 1),
      RemoveObject 0,
      AddObject sampleInfo [triangleMesh, triangleMesh] (Some 1),
      RemoveObject 5,
      AddObject sampleInfo [triangleMesh] (Some 2)]"

definition bodiesInWorld :: "(world, 'b) PhysicsManager \<Rightarrow> nat option" where
  "bodiesInWorld s = map_option bodyCount (bWorld s)"

definition worldTime :: "(world, 'b) PhysicsManager \<Rightarrow> real option" where
  "worldTime s = map_option simulatedTime (bWorld s)"

definition sampleFrames :: "managerCall list" where
  "sampleFrames =
     [StepPhysics 0 (1 / 500), NextFrame (1 / 60),
      StepPhysics (1 / 50) (1 / 40), NextFrame (1 / 60)]"

text \<open>The definitions that a concrete run unfolds.\<close>

lemmas run_defs =
  readyManager_def initPhysics_def PhysicsManager_new_def initObject_def initScene_def
  callInitializer_def allPrimitivesValid_def isMeshPrimitiveValid_def removeObject_def
  registered_def world_backend_def world_addBody_def sampleMemory_def sampleInfo_def
  triangleMesh_def lineMesh_def degenerateMesh_def newBody_def INT_MAX_def
  Timeline_start_def Timeline_new_def Timeline_nextFrame_def stepPhysics_def
  nextFrame_def setTimestep_def applyForce_def applyImpulse_def dynamicObjects_at_def
  callBody_def world_stepSimulation_def

section \<open>Properties of the attribute store\<close>

lemma map_count_pos [simp]: "(0 < map_count m k) = (m k \<noteq> None)"
  by (simp add: map_count_def)

text \<open>
  Claim C8 (as amended). For every attribute store and key \<open>x\<close> that the int, vector and
  string-list partitions do not hold, \<open>setDouble x 1.0\<close> followed by \<open>setString x "a"\<close>
  makes \<open>existsAs DOUBLE x\<close> and \<open>existsAs STRING x\<close> both true and \<open>count x = 2\<close>; a
  subsequent \<open>eraseAs DOUBLE x\<close> removes \<open>x\<close> from the double partition only: the other keys
  of the double partition and all four other partitions are unchanged.
\<close>

theorem attribute_partition_independence:
  assumes "intMap a x = None" and "magnumVec3Map a x = None"
    and "vecStringsMap a x = None"
  shows "existsAs DOUBLE x (setString x ''a'' (setDouble x 1 a))
    \<and> existsAs STRING x (setString x ''a'' (setDouble x 1 a))
    \<and> count x (setString x ''a'' (setDouble x 1 a)) = 2
    \<and> eraseAs DOUBLE x (setString x ''a'' (setDouble x 1 a))
        = (setString x ''a'' (setDouble x 1 a))
            \<lparr>doubleMap := (doubleMap a)(x := None)\<rparr>
    \<and> \<not> existsAs DOUBLE x (eraseAs DOUBLE x (setString x ''a'' (setDouble x 1 a)))
    \<and> existsAs STRING x (eraseAs DOUBLE x (setString x ''a'' (setDouble x 1 a)))
    \<and> stringMap (eraseAs DOUBLE x (setString x ''a'' (setDouble x 1 a))) x = Some ''a''"
  using assms
  by (simp add: existsAs_def count_def eraseAs_def setString_def setDouble_def)

theorem attribute_partition_independence_witness:
  "intMap Attributes_new ''x'' = None
    \<and> existsAs DOUBLE ''x'' (setString ''x'' ''a'' (setDouble ''x'' 1 Attributes_new))
    \<and> existsAs STRING ''x'' (setString ''x'' ''a'' (setDouble ''x'' 1 Attributes_new))
    \<and> count ''x'' (setString ''x'' ''a'' (setDouble ''x'' 1 Attributes_new)) = 2
    \<and> \<not> existsAs DOUBLE ''x''
          (eraseAs DOUBLE ''x'' (setString ''x'' ''a'' (setDouble ''x'' 1 Attributes_new)))
    \<and> existsAs STRING ''x''
          (eraseAs DOUBLE ''x'' (setString ''x'' ''a'' (setDouble ''x'' 1 Attributes_new)))"
  using attribute_partition_independence [of Attributes_new "''x''"]
  by (simp add: Attributes_new_def existsAs_def count_def eraseAs_def setString_def
      setDouble_def)

text \<open>
  The count of 2 does not hold for every store: in the manager's default attributes the
  key \<open>maxSubsteps\<close> is already an int attribute, so after the two stores three partitions
  hold it.
\<close>

theorem attribute_count_counterexample:
  "count ''maxSubsteps''
     (setString ''maxSubsteps'' ''a''
       (setDouble ''maxSubsteps'' 1 PhysicsManagerAttributes_new)) \<noteq> 2"
  by (simp add: count_def setString_def setDouble_def setInt_def
      PhysicsManagerAttributes_new_def Attributes_new_def)

section \<open>Properties of the geometry validator\<close>

text \<open>
  Claim C4. The validator accepts a collision mesh primitive if and only if its topology
  is a triangle list, and then writes nothing to the error log. Every other topology is
  rejected with two lines in the error log; the first one classifies the rejection: for
  points, lines, line loop, line strip, triangle strip and triangle fan it is the
  message that names the topology, and the six messages are pairwise different.
\<close>

theorem triangle_only_validation:
  "(fst (isMeshPrimitiveValid meshData) \<longleftrightarrow> primitive meshData = Triangles)
    \<and> (primitive meshData = Triangles \<longrightarrow> snd (isMeshPrimitiveValid meshData) = [])
    \<and> (primitive meshData \<noteq> Triangles \<longrightarrow>
         length (snd (isMeshPrimitiveValid meshData)) = 2
         \<and> snd (isMeshPrimitiveValid meshData) ! 1 = ''Cannot load collision mesh, skipping'')
    \<and> map (\<lambda>p. hd (snd (isMeshPrimitiveValid (meshData\<lparr>primitive := p\<rparr>))))
         [Points, Lines, LineLoop, LineStrip, TriangleStrip, TriangleFan]
       = [''Invalid primitive: Points'', ''Invalid primitive: Lines'',
          ''Invalid primitive Line loop'', ''Invalid primitive Line Strip'',
          ''Invalid primitive Triangle Strip'', ''Invalid primitive Triangle Fan'']
    \<and> distinct
         (map (\<lambda>p. hd (snd (isMeshPrimitiveValid (meshData\<lparr>primitive := p\<rparr>))))
           [Points, Lines, LineLoop, LineStrip, TriangleStrip, TriangleFan])"
  by (cases "primitive meshData") (simp_all add: isMeshPrimitiveValid_def)

theorem triangle_only_validation_witness:
  "fst (isMeshPrimitiveValid triangleMesh)
    \<and> snd (isMeshPrimitiveValid triangleMesh) = []
    \<and> \<not> fst (isMeshPrimitiveValid lineMesh)
    \<and> snd (isMeshPrimitiveValid lineMesh)
        = [''Invalid primitive: Lines'', ''Cannot load collision mesh, skipping'']"
  using triangle_only_validation [of lineMesh] triangle_only_validation [of triangleMesh]
  by (simp add: isMeshPrimitiveValid_def lineMesh_def triangleMesh_def)

section \<open>Properties of the object registry\<close>

lemma invalid_initObject:
  "\<not> allPrimitivesValid meshGroup \<Longrightarrow>
     initObject be info meshGroup physObject s = Inr (0, s)"
  by (simp add: initObject_def)

lemma invalid_initScene:
  "\<not> allPrimitivesValid meshGroup \<Longrightarrow>
     initScene be info meshGroup physObject s = Inr (False, s)"
  by (simp add: initScene_def)

lemma callInitializer_registry:
  "callInitializer f info mass meshGroup physObject s = Inr (ok, s1) \<Longrightarrow>
     dynamicObjects s1 = dynamicObjects s \<and> nextObjectID s1 = nextObjectID s
     \<and> initialized s1 = initialized s"
  by (auto simp: callInitializer_def split: option.splits prod.splits)

text \<open>
  The two kinds of return of \<open>initObject\<close>: through the last exit, with the counter's old
  value as the result and the object stored under it, or through one of the first two,
  with the registry as it was.
\<close>

lemma initObject_Inr:
  assumes "initObject be info meshGroup physObject s = Inr (r, s')"
  shows "(registered s s' \<and> r = nextObjectID s
           \<and> dynamicObjects s' = (dynamicObjects s)(r \<mapsto> physObject))
       \<or> (\<not> registered s s' \<and> nextObjectID s' = nextObjectID s
           \<and> dynamicObjects s' = dynamicObjects s \<and> (r = 0 \<or> r = - 1))"
  using assms
  by (auto simp: initObject_def registered_def Let_def
      split: if_splits list.splits sum.splits prod.splits
      dest!: callInitializer_registry)

lemma backend_failure:
  assumes "allPrimitivesValid (m # ms)" and "objects s a = Some b" and "bWorld s = Some w"
    and "initializeObject be info (real (length (indices m)) * 0.001) (m # ms) w b
           = (False, w', b')"
  shows "initObject be info (m # ms) (Some a) s
           = Inr (- 1, s\<lparr>bWorld := Some w', objects := (objects s)(a \<mapsto> b')\<rparr>)"
  using assms by (simp add: initObject_def callInitializer_def)

lemma removeObject_counter:
  "removeObject objectID s = Inr s' \<Longrightarrow> nextObjectID s' = nextObjectID s"
  by (auto simp: removeObject_def split: option.splits)

lemma map_upt_shift:
  "map (\<lambda>k. a + int k) [Suc 0..<Suc n] = map (\<lambda>k. a + 1 + int k) [0..<n]"
proof -
  have "[Suc 0..<Suc n] = map Suc [0..<n]" by (simp only: map_Suc_upt)
  then show ?thesis by (simp add: o_def del: upt_Suc)
qed

text \<open>
  From any state, the identities issued by a run are the consecutive integers that start
  at the counter's value.
\<close>

lemma issuedIds_consecutive:
  "issuedIds be calls s
     = map (\<lambda>k. nextObjectID s + int k) [0..<length (issuedIds be calls s)]"
proof (induction calls arbitrary: s)
  case Nil
  show ?case by simp
next
  case (Cons c calls)
  show ?case
  proof (cases c)
    case (AddObject info meshGroup physObject)
    show ?thesis
    proof (cases "initObject be info meshGroup physObject s")
      case (Inl f)
      with AddObject show ?thesis by simp
    next
      case (Inr p)
      obtain r s' where p: "p = (r, s')" by (cases p)
      from initObject_Inr [OF Inr [unfolded p]]
      show ?thesis
      proof
        assume a: "registered s s' \<and> r = nextObjectID s
           \<and> dynamicObjects s' = (dynamicObjects s)(r \<mapsto> physObject)"
        then have n: "nextObjectID s' = nextObjectID s + 1"
          by (simp add: registered_def)
        have "issuedIds be (c # calls) s = nextObjectID s # issuedIds be calls s'"
          using AddObject Inr p a by simp
        also have "issuedIds be calls s'
            = map (\<lambda>k. nextObjectID s' + int k) [0..<length (issuedIds be calls s')]"
          by (rule Cons.IH)
        finally show ?thesis
          using n AddObject Inr p a
          by (simp add: upt_conv_Cons map_upt_shift del: upt_Suc)
      next
        assume a: "\<not> registered s s' \<and> nextObjectID s' = nextObjectID s
           \<and> dynamicObjects s' = dynamicObjects s \<and> (r = 0 \<or> r = - 1)"
        then show ?thesis using AddObject Inr p Cons.IH [of s'] by simp
      qed
    qed
  next
    case (RemoveObject objectID)
    show ?thesis
    proof (cases "removeObject objectID s")
      case (Inl e)
      with RemoveObject Cons.IH [of s] show ?thesis by simp
    next
      case (Inr s')
      with RemoveObject Cons.IH [of s'] removeObject_counter [OF Inr] show ?thesis
        by simp
    qed
  qed
qed

lemma consecutive_sorted:
  "sorted_wrt (<) (map (\<lambda>k. a + int k) [0..<n])"
  by (simp add: sorted_wrt_map)

lemma consecutive_distinct:
  "distinct (map (\<lambda>k. a + int k) [0..<n])"
  by (simp add: distinct_map inj_on_def)

text \<open>
  Claim C1. Over every sequence of \<open>initObject\<close> and \<open>removeObject\<close> calls on a manager
  whose counter is at its initial value 0, the identities returned by the successful
  registrations are strictly increasing in the order of the calls (each is greater than
  every one before it), hence pairwise different, none is negative and the first is 0.
  The sequences contain removals, so no registration after a removal returns an
  identity issued before; a removal leaves the counter as it is.
\<close>

theorem identity_monotonicity:
  assumes "nextObjectID fresh = 0"
  shows "sorted_wrt (<) (issuedIds be calls fresh)
    \<and> distinct (issuedIds be calls fresh)
    \<and> (\<forall>i \<in> set (issuedIds be calls fresh). 0 \<le> i)
    \<and> (issuedIds be calls fresh \<noteq> [] \<longrightarrow> hd (issuedIds be calls fresh) = 0)
    \<and> (case removeObject objectID s of
          Inl e \<Rightarrow> True
        | Inr s' \<Rightarrow> nextObjectID s' = nextObjectID s)"
proof -
  define n where "n = length (issuedIds be calls fresh)"
  have ids: "issuedIds be calls fresh = map (\<lambda>k. 0 + int k) [0..<n]"
    using issuedIds_consecutive [of be calls fresh] assms by (simp add: n_def)
  have 1: "sorted_wrt (<) (issuedIds be calls fresh)"
    unfolding ids by (rule consecutive_sorted)
  have 2: "distinct (issuedIds be calls fresh)"
    unfolding ids by (rule consecutive_distinct)
  have 3: "\<forall>i \<in> set (issuedIds be calls fresh). 0 \<le> i"
    unfolding ids by auto
  have 4: "issuedIds be calls fresh \<noteq> [] \<longrightarrow> hd (issuedIds be calls fresh) = 0"
    unfolding ids by (cases n) (simp_all add: upt_conv_Cons del: upt_Suc)
  have 5: "case removeObject objectID s of
          Inl e \<Rightarrow> True
        | Inr s' \<Rightarrow> nextObjectID s' = nextObjectID s"
    by (auto split: sum.splits dest: removeObject_counter)
  from 1 2 3 4 5 show ?thesis by blast
qed

theorem identity_monotonicity_witness:
  "nextObjectID readyManager = 0
    \<and> issuedIds world_backend sampleCalls readyManager = [0, 1, 2]
    \<and> sorted_wrt (<) (issuedIds world_backend sampleCalls readyManager)
    \<and> distinct (issuedIds world_backend sampleCalls readyManager)"
  using identity_monotonicity
    [where fresh = readyManager and be = world_backend and calls = sampleCalls
      and objectID = 0 and s = readyManager]
  by (simp add: sampleCalls_def run_defs)

text \<open>
  Claim C10. On a manager whose counter is at its initial value 0, the successful
  registrations of a run return 0, 1, 2, ... in this order: the n-th returns n - 1. A
  registration that fails at the geometry validation leaves the whole state as it was;
  one that fails at the construction of the body returns -1 and leaves the counter and
  the registry map as they were.
\<close>

theorem consecutive_identity_allocation:
  assumes "nextObjectID fresh = 0"
  shows "issuedIds be calls fresh = map int [0..<length (issuedIds be calls fresh)]
    \<and> (\<not> allPrimitivesValid meshGroup \<longrightarrow>
          initObject be info meshGroup physObject s = Inr (0, s))
    \<and> (allPrimitivesValid (m # ms) \<and> objects s a = Some b \<and> bWorld s = Some w
          \<and> initializeObject be info (real (length (indices m)) * 0.001) (m # ms) w b
              = (False, w', b')
        \<longrightarrow> initObject be info (m # ms) (Some a) s
              = Inr (- 1, s\<lparr>bWorld := Some w', objects := (objects s)(a \<mapsto> b')\<rparr>)
          \<and> nextObjectID (s\<lparr>bWorld := Some w', objects := (objects s)(a \<mapsto> b')\<rparr>)
              = nextObjectID s
          \<and> dynamicObjects (s\<lparr>bWorld := Some w', objects := (objects s)(a \<mapsto> b')\<rparr>)
              = dynamicObjects s)"
proof -
  have 1: "issuedIds be calls fresh = map int [0..<length (issuedIds be calls fresh)]"
    using issuedIds_consecutive [of be calls fresh] assms by simp
  have 2: "\<not> allPrimitivesValid meshGroup \<longrightarrow>
          initObject be info meshGroup physObject s = Inr (0, s)"
    by (simp add: invalid_initObject)
  have 3: "allPrimitivesValid (m # ms) \<and> objects s a = Some b \<and> bWorld s = Some w
          \<and> initializeObject be info (real (length (indices m)) * 0.001) (m # ms) w b
              = (False, w', b')
        \<longrightarrow> initObject be info (m # ms) (Some a) s
              = Inr (- 1, s\<lparr>bWorld := Some w', objects := (objects s)(a \<mapsto> b')\<rparr>)
          \<and> nextObjectID (s\<lparr>bWorld := Some w', objects := (objects s)(a \<mapsto> b')\<rparr>)
              = nextObjectID s
          \<and> dynamicObjects (s\<lparr>bWorld := Some w', objects := (objects s)(a \<mapsto> b')\<rparr>)
              = dynamicObjects s"
    by (simp add: backend_failure)
  from 1 2 3 show ?thesis by blast
qed

theorem consecutive_identity_allocation_witness:
  "nextObjectID readyManager = 0
    \<and> \<not> allPrimitivesValid [lineMesh]
    \<and> allPrimitivesValid [degenerateMesh]
    \<and> fst (initializeObject world_backend sampleInfo 0 [degenerateMesh]
             (the (bWorld readyManager)) newBody) = False
    \<and> issuedIds world_backend sampleCalls readyManager = map int [0..<3]
    \<and> initObject world_backend sampleInfo [lineMesh] (Some 1) readyManager
        = Inr (0, readyManager)
    \<and> map_sum id fst
        (initObject world_backend sampleInfo [degenerateMesh] (Some 1) readyManager)
        = Inr (- 1)"
  using consecutive_identity_allocation
    [where fresh = readyManager and be = world_backend and calls = sampleCalls
      and meshGroup = "[lineMesh]" and info = sampleInfo and physObject = "Some 1"
      and s = readyManager and m = degenerateMesh and ms = "[]" and a = 1
      and b = newBody and w = "the (bWorld readyManager)"
      and w' = "the (bWorld readyManager)" and b' = newBody]
  by (simp add: sampleCalls_def run_defs upt_conv_Cons del: upt_Suc)

text \<open>
  Claim C3 (the code departs from it). With a mesh group that holds a rejected
  primitive, \<open>initObject\<close> leaves the state as it was, but what it returns is 0, the value
  of its \<^verbatim>\<open>return false\<close>: the same value as the identity of the first successful
  registration, and not the -1 that the function returns for a failed construction.
\<close>

theorem initObject_rejection_returns_zero:
  "\<not> allPrimitivesValid [lineMesh]
    \<and> initObject world_backend sampleInfo [lineMesh] (Some 0) readyManager
        = Inr (0, readyManager)
    \<and> map_sum id fst
        (initObject world_backend sampleInfo [triangleMesh] (Some 0) readyManager)
        = Inr 0
    \<and> map_sum id fst
        (initObject world_backend sampleInfo [degenerateMesh] (Some 0) readyManager)
        = Inr (- 1)
    \<and> initScene world_backend sampleInfo [lineMesh] (Some 0) readyManager
        = Inr (False, readyManager)"
  by (simp add: run_defs)

section \<open>Properties of the interaction calls\<close>

text \<open>
  Claim C2 (as amended). \<open>applyForce\<close> and \<open>applyImpulse\<close> have no test of the identity
  and no error to report. For every identity that is not a key of the registry map
  (never issued, or removed), the lookup inserts the identity with a null pointer, all
  other entries and members unchanged, and the call through that pointer is undefined
  behaviour: the result is the fault \<open>NullPointer\<close>, for every backend, so no rigid object
  receives the force or the impulse.
\<close>

theorem unknown_id_not_rejected:
  assumes "dynamicObjects s objectID = None"
  shows "dynamicObjects_at objectID s
           = (None, s\<lparr>dynamicObjects := (dynamicObjects s)(objectID \<mapsto> None)\<rparr>)
    \<and> applyForce be objectID force relPos s = Inl NullPointer
    \<and> applyImpulse be objectID impulse relPos s = Inl NullPointer"
  using assms
  by (simp add: dynamicObjects_at_def applyForce_def applyImpulse_def callBody_def)

theorem unknown_id_not_rejected_witness:
  "dynamicObjects readyManager 7 = None
    \<and> applyForce world_backend 7 (1, 0, 0) (0, 0, 0) readyManager = Inl NullPointer
    \<and> applyImpulse world_backend 7 (1, 0, 0) (0, 0, 0) readyManager = Inl NullPointer"
  using unknown_id_not_rejected
    [where s = readyManager and objectID = 7 and be = world_backend
      and force = "(1, 0, 0)" and relPos = "(0, 0, 0)" and impulse = "(1, 0, 0)"]
  by (simp add: run_defs)

text \<open>
  On a manager that has issued no identity, \<open>applyForce\<close> with the identity 7 does not
  end in an error value and a state left as it was: it is a call through a null
  pointer, and the lookup before it has added the key 7 to the registry map.
\<close>

theorem unknown_id_counterexample:
  "dynamicObjects readyManager 7 = None
    \<and> applyForce world_backend 7 (1, 0, 0) (0, 0, 0) readyManager = Inl NullPointer
    \<and> dynamicObjects (snd (dynamicObjects_at 7 readyManager)) 7 = Some None"
  by (simp add: run_defs)

section \<open>Properties of initialisation\<close>

lemma callBody_initialized:
  "callBody f physObject s = Inr s1 \<Longrightarrow> initialized s1 = initialized s"
  by (auto simp: callBody_def split: option.splits)

lemma map_sum_snd_Inr:
  "(map_sum id snd x = Inr s') = (\<exists>r. x = Inr (r, s'))"
  by (cases x) auto

lemma initScene_initialized:
  "initScene be info meshGroup physObject s = Inr (r, s') \<Longrightarrow>
     initialized s' = initialized s"
  by (auto simp: initScene_def split: if_splits dest: callInitializer_registry)

lemma initObject_initialized:
  "initObject be info meshGroup physObject s = Inr (r, s') \<Longrightarrow>
     initialized s' = initialized s"
  by (auto simp: initObject_def Let_def
      split: if_splits sum.splits list.splits prod.splits
      dest: callInitializer_registry)

text \<open>No call of the interface takes the flag back to false.\<close>

lemma exec_initialized:
  assumes "initialized s" and "exec be c s = Inr s'"
  shows "initialized s'"
proof (cases c)
  case (InitPhysics node g sim profile)
  with assms show ?thesis by (auto simp: initPhysics_def)
next
  case (InitScene info meshGroup physObject)
  with assms show ?thesis
    by (auto simp: map_sum_snd_Inr dest: initScene_initialized)
next
  case (InitObject info meshGroup physObject)
  with assms show ?thesis
    by (auto simp: map_sum_snd_Inr dest: initObject_initialized)
next
  case (StepPhysics st en)
  with assms show ?thesis
    by (auto simp: stepPhysics_def Let_def split: if_splits option.splits)
next
  case (NextFrame measured)
  with assms show ?thesis by (auto simp: nextFrame_def)
next
  case (SetTimestep dt)
  with assms show ?thesis by (auto simp: setTimestep_def)
next
  case (ApplyForce objectID force relPos)
  with assms show ?thesis
    by (auto simp: applyForce_def dynamicObjects_at_def
        split: option.splits prod.splits dest: callBody_initialized)
next
  case (ApplyImpulse objectID impulse relPos)
  with assms show ?thesis
    by (auto simp: applyImpulse_def dynamicObjects_at_def
        split: option.splits prod.splits dest: callBody_initialized)
next
  case (RemoveObjectCall objectID)
  with assms show ?thesis
    by (auto simp: removeObject_def split: option.splits sum.splits)
qed

lemma execAll_initialized:
  "initialized s \<Longrightarrow> execAll be cs s = Inr s' \<Longrightarrow> initialized s'"
proof (induction cs arbitrary: s)
  case Nil
  then show ?case by simp
next
  case (Cons c cs)
  then show ?case
    by (auto split: sum.splits dest: exec_initialized)
qed

text \<open>
  Claim C5 (as amended). \<open>initPhysics\<close> does not test the flag: every call, also one on a
  manager that is already initialised, returns true, sets the flag, and replaces the
  world by a new one with the given gravity; the registry map and the identity counter
  are kept. Once the flag is true, no sequence of calls of the interface resets it: it
  goes from false to true at the first \<open>initPhysics\<close> and stays true.
\<close>

theorem initPhysics_always_succeeds:
  "fst (initPhysics be node g simulator profile s) = True
    \<and> initialized (snd (initPhysics be node g simulator profile s))
    \<and> bWorld (snd (initPhysics be node g simulator profile s))
        = Some (setGravity be g (newWorld be))
    \<and> dynamicObjects (snd (initPhysics be node g simulator profile s)) = dynamicObjects s
    \<and> nextObjectID (snd (initPhysics be node g simulator profile s)) = nextObjectID s
    \<and> (initialized s \<longrightarrow>
         (case execAll be calls s of Inl f \<Rightarrow> True | Inr s' \<Rightarrow> initialized s'))"
  by (auto simp: initPhysics_def split: sum.splits dest: execAll_initialized)

theorem initPhysics_always_succeeds_witness:
  "initialized readyManager
    \<and> fst (initPhysics world_backend (Some 0) (0, 0, - 9.8) ''bullet'' True readyManager)
    \<and> map_sum id initialized (execAll world_backend sampleFrames readyManager) = Inr True"
  using initPhysics_always_succeeds
    [where be = world_backend and node = "Some 0" and g = "(0, 0, - 9.8)"
      and simulator = "''bullet''" and profile = True and s = readyManager
      and calls = sampleFrames]
  by (simp add: sampleFrames_def run_defs subSteps.simps)

text \<open>
  A second \<open>initPhysics\<close> on an initialised manager succeeds, and it resets the world
  without a word: after the registration of an object the world holds one body; after
  \<open>initPhysics\<close> is called again it holds none, while the registry still has the object.
\<close>

theorem initPhysics_twice_counterexample:
  "initialized readyManager
    \<and> fst (initPhysics world_backend (Some 0) (0, - 9.8, 0) ''bullet'' False readyManager)
    \<and> map_sum id bodiesInWorld
        (execAll world_backend [InitObject sampleInfo [triangleMesh] (Some 0)] readyManager)
        = Inr (Some 1)
    \<and> map_sum id bodiesInWorld
        (execAll world_backend
          [InitObject sampleInfo [triangleMesh] (Some 0),
           InitPhysics (Some 0) (0, - 9.8, 0) ''bullet'' False] readyManager)
        = Inr (Some 0)
    \<and> map_sum id nextObjectID
        (execAll world_backend
          [InitObject sampleInfo [triangleMesh] (Some 0),
           InitPhysics (Some 0) (0, - 9.8, 0) ''bullet'' False] readyManager)
        = Inr 1"
  by (simp add: run_defs bodiesInWorld_def)

section \<open>Properties of stepping\<close>

text \<open>
  Claim C7. On a manager that is not initialised, \<open>stepPhysics\<close> returns without a fault
  and the state it leaves is the state it found, in every member and in the world,
  whatever the backend and the clock readings are.
\<close>

theorem uninitialized_step_is_noop:
  "\<not> initialized s \<Longrightarrow> stepPhysics be start end s = Inr s"
  by (simp add: stepPhysics_def)

theorem uninitialized_step_is_noop_witness:
  "\<not> initialized (PhysicsManager_new sampleMemory :: (world, body) PhysicsManager)
    \<and> stepPhysics world_backend 0 1 (PhysicsManager_new sampleMemory)
        = Inr (PhysicsManager_new sampleMemory)"
  using uninitialized_step_is_noop
    [where s = "PhysicsManager_new sampleMemory" and be = world_backend
      and start = 0 and ?end = 1]
  by (simp add: PhysicsManager_new_def)

lemma subSteps_upper:
  "0 \<le> fixedStep \<Longrightarrow> subSteps n remaining fixedStep t \<le> t + real n * fixedStep"
proof (induction n remaining fixedStep t rule: subSteps.induct)
  case (1 n remaining fixedStep t)
  show ?case
  proof (cases "n = 0 \<or> remaining < fixedStep")
    case True
    with "1.prems" show ?thesis by (simp add: subSteps.simps)
  next
    case False
    then have n: "real n = real (n - 1) + 1" by simp
    have "subSteps n remaining fixedStep t
            = subSteps (n - 1) (remaining - fixedStep) fixedStep (t + fixedStep)"
      using False by (subst subSteps.simps) simp
    also have "\<dots> \<le> t + fixedStep + real (n - 1) * fixedStep"
      using "1.IH" [OF False "1.prems"] .
    also have "\<dots> = t + real n * fixedStep"
      by (subst n) (simp add: algebra_simps)
    finally show ?thesis .
  qed
qed

lemma subSteps_default:
  "subSteps 10 1 (1 / 240) t = t + 10 * (1 / 240)"
  by (simp add: subSteps.simps)

text \<open>
  Claim C6. With \<open>fixedTimeStep = 1/240\<close> and \<open>maxSubSteps = 10\<close>, the defaults of the
  class, one \<open>stepPhysics\<close> with a previous frame duration of 1.0 hands these three values
  to the world's step, and a world that steps with a sub-step cap advances its simulated
  time by 10 * (1/240) seconds: by at most that much, and not by the full second.
\<close>

theorem fixed_step_bound:
  assumes "stepSimulation be = world_stepSimulation"
    and "initialized s" and "bWorld s = Some w"
    and "fixedTimeStep s = 1 / 240" and "maxSubSteps s = 10"
    and "previousFrameDuration (timeline s) = 1"
  shows "\<exists>w'. map_sum id bWorld (stepPhysics be start end s) = Inr (Some w')
    \<and> simulatedTime w' - simulatedTime w \<le> 10 * (1 / 240)
    \<and> simulatedTime w' - simulatedTime w < 1
    \<and> simulatedTime w' = simulatedTime w + 10 * (1 / 240)"
proof -
  define w' where "w' = world_stepSimulation 1 10 (1 / 240) w"
  have t: "simulatedTime w' = simulatedTime w + 10 * (1 / 240)"
    by (simp add: w'_def world_stepSimulation_def subSteps_default)
  have "stepSimulation be (previousFrameDuration (timeline s)) (maxSubSteps s)
          (fixedTimeStep s) w = w'"
    by (simp only: assms w'_def)
  then have "map_sum id bWorld (stepPhysics be start end s) = Inr (Some w')"
    using assms(2,3) by (simp add: stepPhysics_def Let_def)
  moreover have "simulatedTime w' - simulatedTime w \<le> 10 * (1 / 240)"
    using subSteps_upper [of "1 / 240" 10 1 "simulatedTime w"]
    by (simp add: w'_def world_stepSimulation_def)
  moreover have "simulatedTime w' - simulatedTime w < 1"
    using t by simp
  ultimately show ?thesis using t by blast
qed

theorem fixed_step_bound_witness:
  "stepSimulation world_backend = world_stepSimulation
    \<and> initialized (nextFrame 1 readyManager)
    \<and> fixedTimeStep (nextFrame 1 readyManager) = 1 / 240
    \<and> maxSubSteps (nextFrame 1 readyManager) = 10
    \<and> previousFrameDuration (timeline (nextFrame 1 readyManager)) = 1
    \<and> worldTime readyManager = Some 0
    \<and> map_sum id worldTime
         (stepPhysics world_backend 0 (1 / 500) (nextFrame 1 readyManager))
        = Inr (Some (1 / 24))"
  using fixed_step_bound
    [where be = world_backend and s = "nextFrame 1 readyManager"
      and w = "\<lparr>worldGravity = (0, - 9.8, 0), simulatedTime = 0, bodyCount = 0\<rparr>"
      and start = 0 and ?end = "1 / 500"]
  by (simp add: run_defs worldTime_def subSteps_default)

section \<open>Profiling does not interfere\<close>

lemma view_eqD:
  "simulationView s1 = simulationView s2 \<Longrightarrow>
     s2 = s1\<lparr>do_profile := do_profile s2, total_time := total_time s2,
             total_frames := total_frames s2\<rparr>"
  by (cases s1, cases s2) (simp add: simulationView_def)

text \<open>
  Each call sees the three profiling members only to update them: on two states that
  differ in nothing else it has the same outcome, up to these members.
\<close>

lemma exec_view_update:
  "map_sum id simulationView
     (exec be c (s\<lparr>do_profile := p, total_time := t, total_frames := n\<rparr>))
   = map_sum id simulationView (exec be c s)"
proof (cases c)
  case (InitPhysics node g sim profile)
  then show ?thesis by (simp add: initPhysics_def simulationView_def)
next
  case (InitScene info meshGroup physObject)
  then show ?thesis
    by (simp add: initScene_def callInitializer_def simulationView_def
        split: option.splits prod.splits)
next
  case (InitObject info meshGroup physObject)
  then show ?thesis
    by (simp add: initObject_def callInitializer_def simulationView_def Let_def
        split: option.splits prod.splits list.splits)
next
  case (StepPhysics st en)
  then show ?thesis
    by (simp add: stepPhysics_def simulationView_def Let_def split: option.splits)
next
  case (NextFrame measured)
  then show ?thesis by (simp add: nextFrame_def simulationView_def)
next
  case (SetTimestep dt)
  then show ?thesis by (simp add: setTimestep_def simulationView_def)
next
  case (ApplyForce objectID force relPos)
  then show ?thesis
    by (simp add: applyForce_def dynamicObjects_at_def callBody_def simulationView_def
        split: option.splits)
next
  case (ApplyImpulse objectID impulse relPos)
  then show ?thesis
    by (simp add: applyImpulse_def dynamicObjects_at_def callBody_def simulationView_def
        split: option.splits)
next
  case (RemoveObjectCall objectID)
  then show ?thesis
    by (simp add: removeObject_def simulationView_def split: option.splits)
qed

lemma exec_view:
  assumes "simulationView s1 = simulationView s2"
  shows "map_sum id simulationView (exec be c s1)
       = map_sum id simulationView (exec be c s2)"
proof -
  from view_eqD [OF assms] obtain p t n
    where "s2 = s1\<lparr>do_profile := p, total_time := t, total_frames := n\<rparr>" by blast
  then show ?thesis by (simp only: exec_view_update)
qed

lemma execAll_view:
  "simulationView s1 = simulationView s2 \<Longrightarrow>
     map_sum id simulationView (execAll be cs s1)
       = map_sum id simulationView (execAll be cs s2)"
proof (induction cs arbitrary: s1 s2)
  case Nil
  then show ?case by simp
next
  case (Cons c cs)
  from exec_view [OF Cons.prems, of be c]
  have e: "map_sum id simulationView (exec be c s1)
         = map_sum id simulationView (exec be c s2)" .
  show ?case
  proof (cases "exec be c s1")
    case (Inl f)
    with e have "exec be c s2 = Inl f" by (cases "exec be c s2") simp_all
    with Inl show ?thesis by simp
  next
    case (Inr s1')
    with e obtain s2' where s2': "exec be c s2 = Inr s2'"
      and v: "simulationView s1' = simulationView s2'"
      by (cases "exec be c s2") simp_all
    from Cons.IH [OF v] Inr s2' show ?thesis by simp
  qed
qed

text \<open>
  Claim C9. From every manager state and for every sequence of calls (steps, frames and
  all the others), the run with profiling enabled and the run with profiling disabled
  end in the same fault or in states that are equal in everything but the three
  profiling members: the same world, objects, registry, counter, timeline and step
  parameters. In one step, profiling adds 1 to the frame count and the measured
  duration to the total time; without it both stay as they are.
\<close>

theorem profiling_noninterference:
  "map_sum id simulationView (execAll be calls (s\<lparr>do_profile := True\<rparr>))
     = map_sum id simulationView (execAll be calls (s\<lparr>do_profile := False\<rparr>))
    \<and> (case stepPhysics be start end s of
          Inl f \<Rightarrow> True
        | Inr s' \<Rightarrow>
            do_profile s' = do_profile s
            \<and> (if initialized s \<and> do_profile s
                then total_frames s' = total_frames s + 1
                  \<and> total_time s' = total_time s + (end - start)
                else total_frames s' = total_frames s \<and> total_time s' = total_time s))"
proof -
  have "simulationView (s\<lparr>do_profile := True\<rparr>) = simulationView (s\<lparr>do_profile := False\<rparr>)"
    by (simp add: simulationView_def)
  then have "map_sum id simulationView (execAll be calls (s\<lparr>do_profile := True\<rparr>))
     = map_sum id simulationView (execAll be calls (s\<lparr>do_profile := False\<rparr>))"
    by (rule execAll_view)
  moreover have "case stepPhysics be start end s of
          Inl f \<Rightarrow> True
        | Inr s' \<Rightarrow>
            do_profile s' = do_profile s
            \<and> (if initialized s \<and> do_profile s
                then total_frames s' = total_frames s + 1
                  \<and> total_time s' = total_time s + (end - start)
                else total_frames s' = total_frames s \<and> total_time s' = total_time s)"
    by (simp add: stepPhysics_def Let_def split: option.splits)
  ultimately show ?thesis by blast
qed

theorem profiling_noninterference_witness:
  "initialized readyManager
    \<and> map_sum id simulationView
        (execAll world_backend sampleFrames (readyManager\<lparr>do_profile := True\<rparr>))
      = map_sum id simulationView
        (execAll world_backend sampleFrames (readyManager\<lparr>do_profile := False\<rparr>))
    \<and> map_sum id worldTime
        (execAll world_backend sampleFrames (readyManager\<lparr>do_profile := True\<rparr>))
      = Inr (Some (1 / 60))
    \<and> map_sum id total_frames
        (execAll world_backend sampleFrames (readyManager\<lparr>do_profile := True\<rparr>))
      = Inr 2
    \<and> map_sum id total_frames
        (execAll world_backend sampleFrames (readyManager\<lparr>do_profile := False\<rparr>))
      = Inr 0"
  using profiling_noninterference
    [where be = world_backend and calls = sampleFrames and s = readyManager
      and start = 0 and ?end = 1]
  by (simp add: sampleFrames_def run_defs worldTime_def subSteps.simps simulationView_def)

end
